theory Spec2Isabelle
  imports Complex_Main
begin

section \<open>Score normalisation and maturity classification of the PDF report generator\<close>

text \<open>
  The development embeds the arithmetic of \<^verbatim>\<open>DMAP/pdf_generator.py\<close> (class
  \<^verbatim>\<open>ProductResultsPDFGenerator\<close>) and the phase categorisation of
  \<^verbatim>\<open>DMAP/test_enhanced_roadmap.py\<close>.

  Numbers. A Python score is an \<^verbatim>\<open>int\<close> or a finite \<^verbatim>\<open>float\<close>; both denote a
  rational number, so a score is a \<^typ>\<open>rat\<close>. Comparison and the builtin
  \<^verbatim>\<open>round\<close> are exact on the value of a float; \<^verbatim>\<open>/\<close> and \<^verbatim>\<open>+\<close> are taken
  exactly, without the rounding error of binary floating point. The floats that are
  not finite (the two infinities and NaN) are arguments of \<^verbatim>\<open>get_maturity_level\<close>
  in its second embedding, \<open>get_maturity_level_float\<close>, which also has the errors
  that \<^verbatim>\<open>round\<close> raises on them.
\<close>

subsection \<open>Python values and errors\<close>

datatype pyval = PyNone | PyNum rat

datatype py_error = TypeError | OverflowError | ValueError

text \<open>
  A score object is read only through \<^verbatim>\<open>getattr(score, 'total_score', 0)\<close>.
  The field holds \<open>None\<close> when the object has no such attribute.
\<close>

record score_obj =
  total_score :: "pyval option"

text \<open>\<^verbatim>\<open>getattr(score, 'total_score', 0)\<close>: the default is the integer 0.\<close>

definition getattr_total_score :: "score_obj \<Rightarrow> pyval" where
  "getattr_total_score score =
     (case total_score score of None \<Rightarrow> PyNum 0 | Some v \<Rightarrow> v)"

subsection \<open>The builtin \<^verbatim>\<open>round\<close>\<close>

text \<open>
  Python 3 rounds a number to the nearest integer and a tie to the even neighbour
  (\<^verbatim>\<open>round(2.5) == 2\<close>, \<^verbatim>\<open>round(3.5) == 4\<close>).
\<close>

definition py_round :: "rat \<Rightarrow> int" where
  "py_round x =
     (let f = \<lfloor>x\<rfloor>; d = x - of_int f
      in if d < 1 / 2 then f
         else if 1 / 2 < d then f + 1
         else if even f then f else f + 1)"

subsection \<open>\<^verbatim>\<open>get_maturity_level\<close>\<close>

text \<open>
  \<^verbatim>\<open>rounded_score = max(1, min(5, round(score))) if score and score > 0 else 1\<close>.
  \<^verbatim>\<open>score and ...\<close> is falsy for \<^verbatim>\<open>None\<close> and for zero.
\<close>

definition truthy :: "pyval \<Rightarrow> bool" where
  "truthy v = (case v of PyNone \<Rightarrow> False | PyNum x \<Rightarrow> x \<noteq> 0)"

definition rounded_score :: "pyval \<Rightarrow> int" where
  "rounded_score score =
     (case score of
        PyNone \<Rightarrow> 1
      | PyNum x \<Rightarrow> if truthy score \<and> x > 0 then max 1 (min 5 (py_round x)) else 1)"

definition get_maturity_level :: "pyval \<Rightarrow> string" where
  "get_maturity_level score =
     (let r = rounded_score score
      in if r = 1 then ''Level 1 - Initial''
         else if r = 2 then ''Level 2 - Developing''
         else if r = 3 then ''Level 3 - Defined''
         else if r = 4 then ''Level 4 - Managed''
         else ''Level 5 - Optimized'')"

text \<open>
  The label table as the specification words it:
  1 Initial, 2 Developing, 3 Defined, 4 Managed, 5 Optimized.
\<close>

definition spec_maturity_label :: "int \<rightharpoonup> string" where
  "spec_maturity_label =
     [1 \<mapsto> ''Initial'', 2 \<mapsto> ''Developing'', 3 \<mapsto> ''Defined'',
      4 \<mapsto> ''Managed'', 5 \<mapsto> ''Optimized'']"

text \<open>The decimal digit of a level between 0 and 9, for the text \<open>Level N\<close>.\<close>

definition level_digit :: "int \<Rightarrow> string" where
  "level_digit n = [''0123456789'' ! nat n]"

definition spec_level_text :: "int \<Rightarrow> string" where
  "spec_level_text n =
     ''Level '' @ level_digit n @ '' - '' @ (case spec_maturity_label n of Some l \<Rightarrow> l | None \<Rightarrow> [])"

subsection \<open>\<^verbatim>\<open>get_maturity_level\<close> on every float\<close>

text \<open>
  The same function on all its numeric arguments: a number is finite, an infinity or
  NaN, and the argument is \<^verbatim>\<open>None\<close> or a number.
\<close>

datatype pyfloat = Finite rat | PosInf | NegInf | NaN

datatype pyscore = ScoreNone | ScoreNum pyfloat

text \<open>
  Truth value: \<^verbatim>\<open>None\<close> and zero are falsy; the infinities and NaN are not zero,
  so they are truthy.
\<close>

fun truthy_float :: "pyscore \<Rightarrow> bool" where
  "truthy_float ScoreNone = False"
| "truthy_float (ScoreNum (Finite x)) = (x \<noteq> 0)"
| "truthy_float (ScoreNum PosInf) = True"
| "truthy_float (ScoreNum NegInf) = True"
| "truthy_float (ScoreNum NaN) = True"

text \<open>\<^verbatim>\<open>score > 0\<close>: every comparison with NaN is false.\<close>

fun greater_zero :: "pyfloat \<Rightarrow> bool" where
  "greater_zero (Finite x) = (x > 0)"
| "greater_zero PosInf = True"
| "greater_zero NegInf = False"
| "greater_zero NaN = False"

text \<open>
  \<^verbatim>\<open>round(score)\<close>: on an infinity it raises \<^verbatim>\<open>OverflowError\<close> (cannot convert
  float infinity to integer), on NaN \<^verbatim>\<open>ValueError\<close> (cannot convert float NaN to
  integer).
\<close>

fun py_round_float :: "pyfloat \<Rightarrow> py_error + int" where
  "py_round_float (Finite x) = Inr (py_round x)"
| "py_round_float PosInf = Inl OverflowError"
| "py_round_float NegInf = Inl OverflowError"
| "py_round_float NaN = Inl ValueError"

text \<open>
  \<^verbatim>\<open>rounded_score = max(1, min(5, round(score))) if score and score > 0 else 1\<close>:
  \<^verbatim>\<open>round\<close> is called only when the condition holds, and \<^verbatim>\<open>score > 0\<close> is
  evaluated only for a truthy score.
\<close>

definition rounded_score_float :: "pyscore \<Rightarrow> py_error + int" where
  "rounded_score_float score =
     (case score of
        ScoreNone \<Rightarrow> Inr 1
      | ScoreNum x \<Rightarrow>
          if truthy_float score \<and> greater_zero x
          then (case py_round_float x of
                  Inl e \<Rightarrow> Inl e
                | Inr n \<Rightarrow> Inr (max 1 (min 5 n)))
          else Inr 1)"

definition get_maturity_level_float :: "pyscore \<Rightarrow> py_error + string" where
  "get_maturity_level_float score =
     (case rounded_score_float score of
        Inl e \<Rightarrow> Inl e
      | Inr r \<Rightarrow>
          Inr (if r = 1 then ''Level 1 - Initial''
               else if r = 2 then ''Level 2 - Developing''
               else if r = 3 then ''Level 3 - Defined''
               else if r = 4 then ''Level 4 - Managed''
               else ''Level 5 - Optimized''))"

text \<open>The arguments of the first embedding among those of the second.\<close>

fun finite_score :: "pyval \<Rightarrow> pyscore" where
  "finite_score PyNone = ScoreNone"
| "finite_score (PyNum x) = ScoreNum (Finite x)"

subsection \<open>The per-score normalisation and the three averages\<close>

text \<open>
  Lines 488 to 493 of \<^verbatim>\<open>create_maturity_level\<close>:
  \<^verbatim>\<open>if score_val > 5: normalized_score = score_val / 20\<close>,
  \<^verbatim>\<open>else: normalized_score = score_val\<close>. There is no clamp.
\<close>

definition normalized_score :: "rat \<Rightarrow> rat" where
  "normalized_score score_val = (if score_val > 5 then score_val / 20 else score_val)"

text \<open>
  The loop of \<^verbatim>\<open>create_maturity_level\<close> over \<^verbatim>\<open>self.scores\<close>, with the
  accumulators \<^verbatim>\<open>total_score\<close> (here \<open>tot\<close>) and \<^verbatim>\<open>score_count\<close>. Comparing \<^verbatim>\<open>None\<close> with
  5 raises \<^verbatim>\<open>TypeError\<close>.
\<close>

fun maturity_loop :: "score_obj list \<Rightarrow> rat \<times> int \<Rightarrow> py_error + rat \<times> int" where
  "maturity_loop [] acc = Inr acc"
| "maturity_loop (score # rest) (tot, score_count) =
     (case getattr_total_score score of
        PyNone \<Rightarrow> Inl TypeError
      | PyNum score_val \<Rightarrow>
          maturity_loop rest (tot + normalized_score score_val, score_count + 1))"

text \<open>
  \<^verbatim>\<open>overall_score = total_score / score_count if score_count > 0 else 1.0\<close>
\<close>

definition maturity_overall_score :: "score_obj list \<Rightarrow> py_error + rat" where
  "maturity_overall_score scores =
     (case maturity_loop scores (0, 0) of
        Inl e \<Rightarrow> Inl e
      | Inr (tot, score_count) \<Rightarrow>
          Inr (if score_count > 0 then tot / of_int score_count else 1))"

text \<open>
  \<^verbatim>\<open>create_maturity_level\<close>: with scores, the overall score and the text of its
  level; without, the paragraph \<open>No maturity data available\<close> (the value \<open>None\<close>).
\<close>

definition create_maturity_level :: "score_obj list \<Rightarrow> py_error + (rat \<times> string) option" where
  "create_maturity_level scores =
     (if scores \<noteq> [] then
        (case maturity_overall_score scores of
           Inl e \<Rightarrow> Inl e
         | Inr overall_score \<Rightarrow>
             Inr (Some (overall_score, get_maturity_level (PyNum overall_score))))
      else Inr None)"

text \<open>
  The loop of \<^verbatim>\<open>create_executive_summary\<close> (lines 163 to 174), written out as
  the source has it, and its \<^verbatim>\<open>avg_score\<close>, whose default is 0.
\<close>

fun summary_loop :: "score_obj list \<Rightarrow> rat \<times> int \<Rightarrow> py_error + rat \<times> int" where
  "summary_loop [] acc = Inr acc"
| "summary_loop (score # rest) (tot, score_count) =
     (case getattr_total_score score of
        PyNone \<Rightarrow> Inl TypeError
      | PyNum score_val \<Rightarrow>
          (if score_val > 5
           then summary_loop rest (tot + score_val / 20, score_count + 1)
           else summary_loop rest (tot + score_val, score_count + 1)))"

definition summary_avg_score :: "score_obj list \<Rightarrow> py_error + rat" where
  "summary_avg_score scores =
     (case summary_loop scores (0, 0) of
        Inl e \<Rightarrow> Inl e
      | Inr (tot, score_count) \<Rightarrow>
          Inr (if score_count > 0 then tot / of_int score_count else 0))"

definition create_executive_summary :: "score_obj list \<Rightarrow> py_error + (rat \<times> string) option" where
  "create_executive_summary scores =
     (if scores \<noteq> [] then
        (case summary_avg_score scores of
           Inl e \<Rightarrow> Inl e
         | Inr avg_score \<Rightarrow> Inr (Some (avg_score, get_maturity_level (PyNum avg_score))))
      else Inr None)"

subsection \<open>\<^verbatim>\<open>generate_recommendations\<close>\<close>

definition tier_below_2 :: "string list" where
  "tier_below_2 =
     [''Establish basic security policies and procedures'',
      ''Implement fundamental access controls'',
      ''Create incident response procedures'',
      ''Establish regular security training programs'']"

definition tier_below_3 :: "string list" where
  "tier_below_3 =
     [''Document all security processes and procedures'',
      ''Implement regular security assessments'',
      ''Establish security metrics and monitoring'',
      ''Create formal risk management processes'']"

definition tier_below_4 :: "string list" where
  "tier_below_4 =
     [''Implement automated security monitoring'',
      ''Establish security performance metrics'',
      ''Create continuous improvement processes'',
      ''Implement advanced threat detection'']"

definition tier_else :: "string list" where
  "tier_else =
     [''Continue optimizing security processes'',
      ''Share best practices across the organization'',
      ''Implement predictive security analytics'',
      ''Lead industry security initiatives'']"

text \<open>
  \<^verbatim>\<open>recommendations = []\<close>, then one \<^verbatim>\<open>extend\<close> in the branch taken.
\<close>

definition generate_recommendations :: "rat \<Rightarrow> string list" where
  "generate_recommendations overall_score =
     (if overall_score < 2 then [] @ tier_below_2
      else if overall_score < 3 then [] @ tier_below_3
      else if overall_score < 4 then [] @ tier_below_4
      else [] @ tier_else)"

text \<open>
  The loop of \<^verbatim>\<open>create_recommendations\<close> (lines 318 to 329) and its
  \<^verbatim>\<open>avg_score\<close>, whose default is 1.0. Without scores the recommendations are
  those of the score 1.0.
\<close>

fun recommendations_loop :: "score_obj list \<Rightarrow> rat \<times> int \<Rightarrow> py_error + rat \<times> int" where
  "recommendations_loop [] acc = Inr acc"
| "recommendations_loop (score # rest) (tot, score_count) =
     (case getattr_total_score score of
        PyNone \<Rightarrow> Inl TypeError
      | PyNum score_val \<Rightarrow>
          (if score_val > 5
           then recommendations_loop rest (tot + score_val / 20, score_count + 1)
           else recommendations_loop rest (tot + score_val, score_count + 1)))"

definition recommendations_avg_score :: "score_obj list \<Rightarrow> py_error + rat" where
  "recommendations_avg_score scores =
     (case recommendations_loop scores (0, 0) of
        Inl e \<Rightarrow> Inl e
      | Inr (tot, score_count) \<Rightarrow>
          Inr (if score_count > 0 then tot / of_int score_count else 1))"

definition create_recommendations :: "score_obj list \<Rightarrow> py_error + string list" where
  "create_recommendations scores =
     (if scores \<noteq> [] then
        (case recommendations_avg_score scores of
           Inl e \<Rightarrow> Inl e
         | Inr avg_score \<Rightarrow> Inr (generate_recommendations avg_score))
      else Inr (generate_recommendations 1))"

subsection \<open>The phase categorisation of \<^verbatim>\<open>test_roadmap_logic\<close>\<close>

text \<open>
  Lines 96 to 101 of the test sort a sub-dimension by its level:
  \<^verbatim>\<open>if level <= 2\<close> into \<^verbatim>\<open>phase_1_subdims\<close>, \<^verbatim>\<open>elif level == 3\<close> into
  \<^verbatim>\<open>phase_2_subdims\<close>, \<^verbatim>\<open>elif level == 4\<close> into \<^verbatim>\<open>phase_3_subdims\<close>, and
  into no list otherwise. Lines 103 to 105 print the three lists under the names
  \<open>0-3 months\<close>, \<open>3-6 months\<close> and \<open>6-12 months\<close>.
\<close>

datatype phase = Phase_1 | Phase_2 | Phase_3

definition phase_of_level :: "int \<Rightarrow> phase option" where
  "phase_of_level level =
     (if level \<le> 2 then Some Phase_1
      else if level = 3 then Some Phase_2
      else if level = 4 then Some Phase_3
      else None)"

fun phase_name :: "phase \<Rightarrow> string" where
  "phase_name Phase_1 = ''0-3 months''"
| "phase_name Phase_2 = ''3-6 months''"
| "phase_name Phase_3 = ''6-12 months''"

definition phase_bucket :: "int \<Rightarrow> string option" where
  "phase_bucket level = map_option phase_name (phase_of_level level)"

text \<open>
  The loop itself: the three lists after the sub-dimensions, each with its level,
  have been visited in order.
\<close>

fun categorize :: "(string \<times> int) list \<Rightarrow> string list \<times> string list \<times> string list
    \<Rightarrow> string list \<times> string list \<times> string list" where
  "categorize [] acc = acc"
| "categorize ((subdim, level) # rest) (phase_1_subdims, phase_2_subdims, phase_3_subdims) =
     (if level \<le> 2
      then categorize rest (phase_1_subdims @ [subdim], phase_2_subdims, phase_3_subdims)
      else if level = 3
      then categorize rest (phase_1_subdims, phase_2_subdims @ [subdim], phase_3_subdims)
      else if level = 4
      then categorize rest (phase_1_subdims, phase_2_subdims, phase_3_subdims @ [subdim])
      else categorize rest (phase_1_subdims, phase_2_subdims, phase_3_subdims))"

subsection \<open>The expected table of \<^verbatim>\<open>test_maturity_level_mapping\<close>\<close>

definition test_cases :: "(rat \<times> int) list" where
  "test_cases =
     [(1, 1), (14 / 10, 1), (15 / 10, 2), (18 / 10, 2),
      (2, 2), (24 / 10, 2), (25 / 10, 3), (28 / 10, 3),
      (3, 3), (34 / 10, 3), (35 / 10, 4), (38 / 10, 4),
      (4, 4), (44 / 10, 4), (45 / 10, 5), (5, 5)]"


section \<open>Properties\<close>

subsection \<open>Helper facts about rounding and the level\<close>

lemma rounded_score_range: "1 \<le> rounded_score v \<and> rounded_score v \<le> 5"
  by (cases v) (simp_all add: rounded_score_def)

lemma py_round_floor: "\<lfloor>x\<rfloor> \<le> py_round x"
  by (simp add: py_round_def Let_def)

lemma py_round_floor1: "py_round x \<le> \<lfloor>x\<rfloor> + 1"
  by (simp add: py_round_def Let_def)

lemma py_round_mono:
  assumes "x \<le> y"
  shows "py_round x \<le> py_round y"
proof (cases "\<lfloor>x\<rfloor> = \<lfloor>y\<rfloor>")
  case True
  from assms have "x - of_int \<lfloor>x\<rfloor> \<le> y - of_int \<lfloor>x\<rfloor>" by simp
  with True show ?thesis by (auto simp add: py_round_def Let_def)
next
  case False
  with assms have "\<lfloor>x\<rfloor> < \<lfloor>y\<rfloor>" using floor_mono [of x y] by linarith
  then have "\<lfloor>x\<rfloor> + 1 \<le> \<lfloor>y\<rfloor>" by simp
  with py_round_floor [of y] py_round_floor1 [of x] show ?thesis by linarith
qed

lemma level_text: "get_maturity_level score = spec_level_text (rounded_score score)"
proof -
  have "1 \<le> rounded_score score \<and> rounded_score score \<le> 5"
    by (rule rounded_score_range)
  then consider "rounded_score score = 1" | "rounded_score score = 2"
    | "rounded_score score = 3" | "rounded_score score = 4" | "rounded_score score = 5"
    by linarith
  then show ?thesis
    by cases
      (simp_all add: get_maturity_level_def spec_level_text_def spec_maturity_label_def
        level_digit_def)
qed

subsection \<open>Helper facts about the embedding on every float\<close>

text \<open>On \<^verbatim>\<open>None\<close> and the finite numbers the two embeddings agree.\<close>

lemma rounded_score_float_finite:
  "rounded_score_float (finite_score v) = Inr (rounded_score v)"
  by (cases v) (simp_all add: rounded_score_float_def rounded_score_def truthy_def)

lemma get_maturity_level_float_finite:
  "get_maturity_level_float (finite_score v) = Inr (get_maturity_level v)"
  by (simp add: get_maturity_level_float_def get_maturity_level_def
      rounded_score_float_finite)

lemma finite_score_cases:
  "score = ScoreNum PosInf \<or> score = ScoreNum NegInf \<or> score = ScoreNum NaN
   \<or> (\<exists>v. score = finite_score v)"
proof (cases score)
  case ScoreNone
  then have "score = finite_score PyNone" by simp
  then show ?thesis by blast
next
  case (ScoreNum x)
  show ?thesis
  proof (cases x)
    case (Finite q)
    with ScoreNum have "score = finite_score (PyNum q)" by simp
    then show ?thesis by blast
  qed (simp_all add: ScoreNum)
qed

lemma get_maturity_level_float_neg_inf:
  "get_maturity_level_float (ScoreNum NegInf) = Inr ''Level 1 - Initial''"
  by (simp add: get_maturity_level_float_def rounded_score_float_def)

lemma get_maturity_level_float_nan:
  "get_maturity_level_float (ScoreNum NaN) = Inr ''Level 1 - Initial''"
  by (simp add: get_maturity_level_float_def rounded_score_float_def)

lemma spec_level_text_1: "spec_level_text 1 = ''Level 1 - Initial''"
  by (simp add: spec_level_text_def spec_maturity_label_def level_digit_def)

subsection \<open>Helper facts about the three loops\<close>

lemma maturity_loop_count:
  "maturity_loop scores (t, c) = Inr (t', c') \<Longrightarrow> c' = c + int (length scores)"
proof (induction scores arbitrary: t c)
  case Nil
  then show ?case by simp
next
  case (Cons s scores)
  show ?case
  proof (cases "getattr_total_score s")
    case PyNone
    with Cons.prems show ?thesis by simp
  next
    case (PyNum v)
    with Cons.prems have "maturity_loop scores (t + normalized_score v, c + 1) = Inr (t', c')"
      by simp
    then have "c' = (c + 1) + int (length scores)" by (rule Cons.IH)
    then show ?thesis by simp
  qed
qed

lemma summary_loop_eq: "summary_loop scores acc = maturity_loop scores acc"
proof (induction scores arbitrary: acc)
  case Nil
  show ?case by simp
next
  case (Cons s scores)
  obtain t c where acc: "acc = (t, c)" by (cases acc)
  show ?case unfolding acc
    by (cases "getattr_total_score s") (simp_all add: Cons.IH normalized_score_def)
qed

lemma recommendations_loop_eq: "recommendations_loop scores acc = maturity_loop scores acc"
proof (induction scores arbitrary: acc)
  case Nil
  show ?case by simp
next
  case (Cons s scores)
  obtain t c where acc: "acc = (t, c)" by (cases acc)
  show ?case unfolding acc
    by (cases "getattr_total_score s") (simp_all add: Cons.IH normalized_score_def)
qed

lemma recommendations_avg_eq: "recommendations_avg_score scores = maturity_overall_score scores"
  by (simp add: recommendations_avg_score_def maturity_overall_score_def recommendations_loop_eq)

lemma summary_avg_eq:
  assumes "scores \<noteq> []"
  shows "summary_avg_score scores = maturity_overall_score scores"
proof (cases "maturity_loop scores (0, 0)")
  case (Inl e)
  then show ?thesis
    by (simp add: summary_avg_score_def maturity_overall_score_def summary_loop_eq)
next
  case (Inr p)
  obtain t c where p: "p = (t, c)" by (cases p)
  from Inr p have "c = 0 + int (length scores)" by (intro maturity_loop_count) simp
  with assms have "0 < c" by simp
  with Inr p show ?thesis
    by (simp add: summary_avg_score_def maturity_overall_score_def summary_loop_eq)
qed

text \<open>
  Without a score the two defaults differ, 0 in the summary and 1.0 elsewhere; the
  guard \<^verbatim>\<open>if self.scores\<close> keeps the loops from an empty list.
\<close>

lemma avg_defaults: "summary_avg_score [] = Inr 0 \<and> maturity_overall_score [] = Inr 1"
  by (simp add: summary_avg_score_def maturity_overall_score_def)

lemma maturity_loop_absent:
  "\<forall>s\<in>set scores. total_score s = None \<Longrightarrow>
     maturity_loop scores (t, c) = Inr (t, c + int (length scores))"
  by (induction scores arbitrary: t c)
    (simp_all add: getattr_total_score_def normalized_score_def)

text \<open>
  The chain of \<open>phase_of_level\<close> is the chain of the loop: one sub-dimension lands
  in the list of its phase, or in none.
\<close>

lemma categorize_single:
  "categorize [(subdim, level)] ([], [], []) =
     (case phase_of_level level of
        Some Phase_1 \<Rightarrow> ([subdim], [], [])
      | Some Phase_2 \<Rightarrow> ([], [subdim], [])
      | Some Phase_3 \<Rightarrow> ([], [], [subdim])
      | None \<Rightarrow> ([], [], []))"
  by (simp add: phase_of_level_def)

lemma tiers_distinct: "distinct [tier_below_2, tier_below_3, tier_below_4, tier_else]"
  by (simp add: tier_below_2_def tier_below_3_def tier_below_4_def tier_else_def)

subsection \<open>The normalised score\<close>

text \<open>
  C1, as the code has it: the normalisation applies no clamp. The normalised score
  lies in the range from 1.0 to 5.0 exactly when the raw score lies in the range from
  1 to 5 or in the range from 20 to 100. A raw score above 5 and below 20 is divided
  by 20 and stays below 1.0.
\<close>

theorem normalized_score_range:
  "((1 \<le> normalized_score r \<and> normalized_score r \<le> 5)
      = ((1 \<le> r \<and> r \<le> 5) \<or> (20 \<le> r \<and> r \<le> 100)))
   \<and> (5 < r \<and> r < 20 \<longrightarrow> normalized_score r = r / 20 \<and> normalized_score r < 1)"
  by (auto simp add: normalized_score_def)

theorem normalized_score_range_witness:
  "1 \<le> normalized_score 82 \<and> normalized_score 82 \<le> 5
   \<and> (5::rat) < 12 \<and> (12::rat) < 20 \<and> normalized_score 12 = 12 / 20 \<and> normalized_score 12 < 1"
  using normalized_score_range [of 82] normalized_score_range [of 12] by simp

text \<open>
  The raw score 10 lies above 5 and below 100; it is divided by 20 and the result,
  one half, stays below 1.0.
\<close>

theorem normalized_score_unclamped_counterexample:
  "(5::rat) < 10 \<and> (10::rat) \<le> 100 \<and> normalized_score 10 = 1 / 2 \<and> normalized_score 10 < 1"
  by (simp add: normalized_score_def)

text \<open>
  C3: a raw score \<open>r \<ge> 0\<close> is returned unchanged when \<open>r \<le> 5\<close> and divided by 20
  when \<open>r > 5\<close>; so it is unchanged on the range from 1 to 5 and divided by 20 above
  5 and up to 100.
\<close>

theorem normalized_score_cases:
  "0 \<le> r \<Longrightarrow>
     (r \<le> 5 \<longrightarrow> normalized_score r = r) \<and> (5 < r \<longrightarrow> normalized_score r = r / 20)
     \<and> (1 \<le> r \<and> r \<le> 5 \<longrightarrow> normalized_score r = r)
     \<and> (5 < r \<and> r \<le> 100 \<longrightarrow> normalized_score r = r / 20)"
  by (simp add: normalized_score_def)

theorem normalized_score_cases_witness:
  "(0::rat) \<le> 82 \<and> (5::rat) < 82 \<and> (82::rat) \<le> 100 \<and> normalized_score 82 = 82 / 20
   \<and> (0::rat) \<le> 3 \<and> (1::rat) \<le> 3 \<and> (3::rat) \<le> 5 \<and> normalized_score 3 = 3"
  using normalized_score_cases [of 82] normalized_score_cases [of 3] by simp

subsection \<open>The maturity level\<close>

text \<open>
  C2: what \<^verbatim>\<open>get_maturity_level\<close> returns at the four midpoints. The builtin
  \<^verbatim>\<open>round\<close> takes a tie to the even neighbour: 1.5 and 2.5 both give level 2,
  3.5 and 4.5 both give level 4. Of the sixteen rows of the expected table of
  \<^verbatim>\<open>test_maturity_level_mapping\<close>, the rows (2.5, 3) and (4.5, 5) are the two
  the rounding does not meet. The midpoint 2.5 is the overall score of the two scores
  2 and 3.
\<close>

theorem get_maturity_level_midpoints:
  "get_maturity_level (PyNum (15 / 10)) = ''Level 2 - Developing''
   \<and> get_maturity_level (PyNum (25 / 10)) = ''Level 2 - Developing''
   \<and> get_maturity_level (PyNum (35 / 10)) = ''Level 4 - Managed''
   \<and> get_maturity_level (PyNum (45 / 10)) = ''Level 4 - Managed''
   \<and> filter (\<lambda>(score, expected_level). rounded_score (PyNum score) \<noteq> expected_level) test_cases
       = [(25 / 10, 3), (45 / 10, 5)]
   \<and> create_maturity_level [\<lparr>total_score = Some (PyNum 2)\<rparr>, \<lparr>total_score = Some (PyNum 3)\<rparr>]
       = Inr (Some (25 / 10, ''Level 2 - Developing''))"
  by code_simp

text \<open>
  C7: the level of every score is one of 1 to 5, and the text returned for it is
  \<open>Level N\<close>, a dash and the label of N in the table Initial, Developing, Defined,
  Managed, Optimized; the scores 1 to 5 give the five texts.
\<close>

theorem get_maturity_level_label:
  "1 \<le> rounded_score score \<and> rounded_score score \<le> 5
   \<and> get_maturity_level score = spec_level_text (rounded_score score)
   \<and> map (\<lambda>n. get_maturity_level (PyNum (of_int n))) [1, 2, 3, 4, 5] =
       [''Level 1 - Initial'', ''Level 2 - Developing'', ''Level 3 - Defined'',
        ''Level 4 - Managed'', ''Level 5 - Optimized'']"
proof (intro conjI)
  show "1 \<le> rounded_score score" and "rounded_score score \<le> 5"
    using rounded_score_range [of score] by simp_all
  show "get_maturity_level score = spec_level_text (rounded_score score)"
    by (rule level_text)
  show "map (\<lambda>n. get_maturity_level (PyNum (of_int n))) [1, 2, 3, 4, 5] =
       [''Level 1 - Initial'', ''Level 2 - Developing'', ''Level 3 - Defined'',
        ''Level 4 - Managed'', ''Level 5 - Optimized'']"
    by code_simp
qed

text \<open>
  C8: the level is monotone: for scores \<open>x \<le> y\<close> between 1 and 5 the level of \<open>x\<close>
  is at most the level of \<open>y\<close>, the levels being those whose text
  \<^verbatim>\<open>get_maturity_level\<close> returns.
\<close>

theorem rounded_score_monotone:
  assumes "1 \<le> x" and "x \<le> y" and "y \<le> 5"
  shows "rounded_score (PyNum x) \<le> rounded_score (PyNum y)
    \<and> get_maturity_level (PyNum x) = spec_level_text (rounded_score (PyNum x))
    \<and> get_maturity_level (PyNum y) = spec_level_text (rounded_score (PyNum y))"
  using assms py_round_mono [of x y]
  by (auto simp add: rounded_score_def truthy_def level_text)

theorem rounded_score_monotone_witness:
  "(1::rat) \<le> 5 / 2 \<and> (5 / 2 :: rat) \<le> 7 / 2 \<and> (7 / 2 :: rat) \<le> 5
   \<and> rounded_score (PyNum (5 / 2)) \<le> rounded_score (PyNum (7 / 2))"
  using rounded_score_monotone [of "5 / 2" "7 / 2"] by simp

text \<open>
  C10, as the code has it: \<^verbatim>\<open>get_maturity_level\<close> returns \<open>Level 1 - Initial\<close>
  and raises nothing for \<^verbatim>\<open>None\<close>, for zero, for every negative number, negative
  infinity included, and for NaN. For every argument other than positive infinity it
  returns the text of one of the levels 1 to 5. It is not total over all numbers: at
  positive infinity \<^verbatim>\<open>round\<close> raises \<^verbatim>\<open>OverflowError\<close>.
\<close>

theorem get_maturity_level_float_total:
  "(score \<noteq> ScoreNum PosInf \<longrightarrow>
      (\<exists>n. 1 \<le> n \<and> n \<le> 5 \<and> get_maturity_level_float score = Inr (spec_level_text n)))
   \<and> get_maturity_level_float (ScoreNum PosInf) = Inl OverflowError
   \<and> get_maturity_level_float ScoreNone = Inr ''Level 1 - Initial''
   \<and> (x \<le> 0 \<longrightarrow> get_maturity_level_float (ScoreNum (Finite x)) = Inr ''Level 1 - Initial'')
   \<and> get_maturity_level_float (ScoreNum NegInf) = Inr ''Level 1 - Initial''
   \<and> get_maturity_level_float (ScoreNum NaN) = Inr ''Level 1 - Initial''"
proof (intro conjI impI)
  assume ne: "score \<noteq> ScoreNum PosInf"
  from finite_score_cases [of score] ne
  consider "score = ScoreNum NegInf" | "score = ScoreNum NaN"
    | v where "score = finite_score v"
    by blast
  then show "\<exists>n. 1 \<le> n \<and> n \<le> 5 \<and> get_maturity_level_float score = Inr (spec_level_text n)"
  proof cases
    case 1
    then have "get_maturity_level_float score = Inr (spec_level_text 1)"
      by (simp add: get_maturity_level_float_neg_inf spec_level_text_1)
    then show ?thesis by (intro exI [of _ 1]) simp
  next
    case 2
    then have "get_maturity_level_float score = Inr (spec_level_text 1)"
      by (simp add: get_maturity_level_float_nan spec_level_text_1)
    then show ?thesis by (intro exI [of _ 1]) simp
  next
    case (3 v)
    then have "get_maturity_level_float score = Inr (spec_level_text (rounded_score v))"
      by (simp add: get_maturity_level_float_finite level_text)
    with rounded_score_range [of v] show ?thesis
      by (intro exI [of _ "rounded_score v"]) simp
  qed
next
  show "get_maturity_level_float (ScoreNum PosInf) = Inl OverflowError"
    by (simp add: get_maturity_level_float_def rounded_score_float_def)
  show "get_maturity_level_float ScoreNone = Inr ''Level 1 - Initial''"
    by (simp add: get_maturity_level_float_def rounded_score_float_def)
  show "get_maturity_level_float (ScoreNum NegInf) = Inr ''Level 1 - Initial''"
    by (rule get_maturity_level_float_neg_inf)
  show "get_maturity_level_float (ScoreNum NaN) = Inr ''Level 1 - Initial''"
    by (rule get_maturity_level_float_nan)
next
  assume "x \<le> 0"
  then show "get_maturity_level_float (ScoreNum (Finite x)) = Inr ''Level 1 - Initial''"
    by (simp add: get_maturity_level_float_def rounded_score_float_def)
qed

theorem get_maturity_level_float_total_witness:
  "ScoreNum (Finite (-3)) \<noteq> ScoreNum PosInf \<and> (-3 :: rat) \<le> 0
   \<and> get_maturity_level_float (ScoreNum (Finite (-3))) = Inr ''Level 1 - Initial''
   \<and> get_maturity_level_float (ScoreNum (Finite 0)) = Inr ''Level 1 - Initial''"
  using get_maturity_level_float_total [of "ScoreNum (Finite (-3))" "-3"]
    get_maturity_level_float_total [of "ScoreNum (Finite (-3))" 0]
  by simp

text \<open>
  Positive infinity is truthy and greater than zero, so \<^verbatim>\<open>round\<close> is called and
  raises.
\<close>

theorem get_maturity_level_inf_counterexample:
  "truthy_float (ScoreNum PosInf) \<and> greater_zero PosInf
   \<and> py_round_float PosInf = Inl OverflowError
   \<and> get_maturity_level_float (ScoreNum PosInf) = Inl OverflowError"
  by (simp add: get_maturity_level_float_def rounded_score_float_def)

subsection \<open>Missing scores\<close>

text \<open>
  C4, as the code has it: \<^verbatim>\<open>get_maturity_level(None)\<close> raises nothing and returns
  \<open>Level 1 - Initial\<close>. The overall score of \<^verbatim>\<open>create_maturity_level\<close> defaults to
  1.0 only when no score was counted, and 1.0 has level 1; with an empty list of
  scores the section shows no level at all. A score object without the attribute
  \<^verbatim>\<open>total_score\<close> is read as 0, not as 1.0: a list of one or more such objects
  has the overall score 0 and the level \<open>Level 1 - Initial\<close>.
\<close>

theorem missing_score_level:
  "get_maturity_level PyNone = ''Level 1 - Initial''
   \<and> maturity_overall_score [] = Inr 1
   \<and> get_maturity_level (PyNum 1) = ''Level 1 - Initial''
   \<and> create_maturity_level [] = Inr None
   \<and> (scores \<noteq> [] \<and> (\<forall>s\<in>set scores. total_score s = None) \<longrightarrow>
        create_maturity_level scores = Inr (Some (0, ''Level 1 - Initial'')))"
proof (intro conjI impI)
  show "get_maturity_level PyNone = ''Level 1 - Initial''"
    by (simp add: get_maturity_level_def rounded_score_def)
  show "maturity_overall_score [] = Inr 1"
    by (simp add: maturity_overall_score_def)
  show "get_maturity_level (PyNum 1) = ''Level 1 - Initial''"
    by code_simp
  show "create_maturity_level [] = Inr None"
    by (simp add: create_maturity_level_def)
next
  assume h: "scores \<noteq> [] \<and> (\<forall>s\<in>set scores. total_score s = None)"
  then have "maturity_loop scores (0, 0) = Inr (0, 0 + int (length scores))"
    by (intro maturity_loop_absent) simp
  with h have "maturity_overall_score scores = Inr 0"
    by (simp add: maturity_overall_score_def)
  with h show "create_maturity_level scores = Inr (Some (0, ''Level 1 - Initial''))"
    by (simp add: create_maturity_level_def get_maturity_level_def rounded_score_def
        truthy_def)
qed

theorem missing_score_level_witness:
  "[\<lparr>total_score = None\<rparr>, \<lparr>total_score = None\<rparr>] \<noteq> []
   \<and> map total_score [\<lparr>total_score = None\<rparr>, \<lparr>total_score = None\<rparr>] = [None, None]
   \<and> create_maturity_level [\<lparr>total_score = None\<rparr>, \<lparr>total_score = None\<rparr>]
       = Inr (Some (0, ''Level 1 - Initial''))"
  using missing_score_level [of "[\<lparr>total_score = None\<rparr>, \<lparr>total_score = None\<rparr>]"]
  by simp

text \<open>
  One score object without the attribute: the overall score is 0, not 1.0. One score
  object whose \<^verbatim>\<open>total_score\<close> is \<^verbatim>\<open>None\<close>: the comparison with 5 raises
  \<^verbatim>\<open>TypeError\<close>.
\<close>

theorem missing_score_counterexample:
  "maturity_overall_score [\<lparr>total_score = None\<rparr>] = Inr 0
   \<and> maturity_overall_score [\<lparr>total_score = None\<rparr>] \<noteq> Inr 1
   \<and> create_maturity_level [\<lparr>total_score = Some PyNone\<rparr>] = Inl TypeError"
  by (simp add: maturity_overall_score_def create_maturity_level_def
      getattr_total_score_def normalized_score_def)

subsection \<open>Phases and recommendations\<close>

text \<open>
  C5: the phase is a function of the level: levels 1 and 2 fall into \<open>0-3 months\<close>,
  level 3 into \<open>3-6 months\<close>, level 4 into \<open>6-12 months\<close>, three different buckets,
  and level 5 into none; the loop of the test sorts five sub-dimensions of the levels
  1 to 5 accordingly.
\<close>

theorem phase_bucket_levels:
  "phase_bucket 1 = Some ''0-3 months'' \<and> phase_bucket 2 = Some ''0-3 months''
   \<and> phase_bucket 3 = Some ''3-6 months'' \<and> phase_bucket 4 = Some ''6-12 months''
   \<and> phase_bucket 5 = None
   \<and> distinct [phase_bucket 1, phase_bucket 3, phase_bucket 4]
   \<and> categorize [(a, 1), (b, 2), (c, 3), (d, 4), (e, 5)] ([], [], []) = ([a, b], [c], [d])"
  by (simp add: phase_bucket_def phase_of_level_def)

text \<open>
  C6: \<^verbatim>\<open>generate_recommendations\<close> returns one of four fixed lists: the first for a
  score below 2, the second from 2 and below 3, the third from 3 and below 4, the
  fourth from 4 on. The four lists differ, and every score gets exactly one of them.
\<close>

theorem generate_recommendations_tiers:
  "(s < 2 \<longrightarrow> generate_recommendations s = tier_below_2)
   \<and> (2 \<le> s \<and> s < 3 \<longrightarrow> generate_recommendations s = tier_below_3)
   \<and> (3 \<le> s \<and> s < 4 \<longrightarrow> generate_recommendations s = tier_below_4)
   \<and> (4 \<le> s \<longrightarrow> generate_recommendations s = tier_else)
   \<and> distinct [tier_below_2, tier_below_3, tier_below_4, tier_else]
   \<and> (\<exists>!t. t \<in> set [tier_below_2, tier_below_3, tier_below_4, tier_else]
          \<and> generate_recommendations s = t)"
proof (intro conjI impI)
  show "distinct [tier_below_2, tier_below_3, tier_below_4, tier_else]"
    by (rule tiers_distinct)
  show "\<exists>!t. t \<in> set [tier_below_2, tier_below_3, tier_below_4, tier_else]
          \<and> generate_recommendations s = t"
    by (rule ex1I [of _ "generate_recommendations s"])
      (simp_all add: generate_recommendations_def)
qed (simp_all add: generate_recommendations_def)

theorem generate_recommendations_tiers_witness:
  "(1::rat) < 2 \<and> generate_recommendations 1 = tier_below_2
   \<and> (2::rat) \<le> 5 / 2 \<and> (5 / 2 :: rat) < 3 \<and> generate_recommendations (5 / 2) = tier_below_3
   \<and> (3::rat) \<le> 7 / 2 \<and> (7 / 2 :: rat) < 4 \<and> generate_recommendations (7 / 2) = tier_below_4
   \<and> (4::rat) \<le> 5 \<and> generate_recommendations 5 = tier_else"
  using generate_recommendations_tiers [of 1] generate_recommendations_tiers [of "5 / 2"]
    generate_recommendations_tiers [of "7 / 2"] generate_recommendations_tiers [of 5]
  by simp

subsection \<open>The three averages\<close>

text \<open>
  C9: for a non-empty list of scores, the average of the normalised scores is the same
  in \<^verbatim>\<open>create_executive_summary\<close>, in \<^verbatim>\<open>create_recommendations\<close> and in
  \<^verbatim>\<open>create_maturity_level\<close>, an error included.
\<close>

theorem average_scores_agree:
  assumes "scores \<noteq> []"
  shows "summary_avg_score scores = recommendations_avg_score scores
    \<and> recommendations_avg_score scores = maturity_overall_score scores
    \<and> create_executive_summary scores = create_maturity_level scores"
  using assms
  by (simp add: summary_avg_eq recommendations_avg_eq create_executive_summary_def
      create_maturity_level_def)

theorem average_scores_agree_witness:
  "[\<lparr>total_score = Some (PyNum 82)\<rparr>, \<lparr>total_score = Some (PyNum 3)\<rparr>] \<noteq> []
   \<and> summary_avg_score [\<lparr>total_score = Some (PyNum 82)\<rparr>, \<lparr>total_score = Some (PyNum 3)\<rparr>]
       = recommendations_avg_score [\<lparr>total_score = Some (PyNum 82)\<rparr>, \<lparr>total_score = Some (PyNum 3)\<rparr>]
   \<and> maturity_overall_score [\<lparr>total_score = Some (PyNum 82)\<rparr>, \<lparr>total_score = Some (PyNum 3)\<rparr>]
       = Inr (71 / 20)"
proof -
  have ne: "[\<lparr>total_score = Some (PyNum 82)\<rparr>, \<lparr>total_score = Some (PyNum 3)\<rparr>] \<noteq> []"
    by simp
  have v: "maturity_overall_score
      [\<lparr>total_score = Some (PyNum 82)\<rparr>, \<lparr>total_score = Some (PyNum 3)\<rparr>] = Inr (71 / 20)"
    by code_simp
  show ?thesis using average_scores_agree [OF ne] v by simp
qed

end
